theory Spec2Isabelle
  imports Main
begin

section \<open>Data model of server.js\<close>

text \<open>
  The server is an Express application with four routes (\<^verbatim>\<open>/signup\<close>, \<^verbatim>\<open>/login\<close>,
  \<^verbatim>\<open>/profile\<close>, \<^verbatim>\<open>/logout\<close>) over one PostgreSQL pool. The pool holds the
  \<^verbatim>\<open>users\<close> table created by \<^verbatim>\<open>ensureTables\<close> and the \<^verbatim>\<open>session\<close> table of the
  session middleware. Everything a handler reads or writes outside its own locals is
  passed explicitly: the world (both tables), the session object \<^verbatim>\<open>req.session\<close>, and
  the inputs the environment chooses (clock, salt, fresh session id, rows committed by
  concurrent requests).
\<close>

type_synonym timestamp = nat \<comment> \<open>milliseconds since the epoch\<close>
type_synonym sid = string \<comment> \<open>session id, the value carried by the cookie\<close>

text \<open>A row of \<^verbatim>\<open>users\<close>: id SERIAL PRIMARY KEY, email TEXT UNIQUE NOT NULL,
  password\_hash TEXT NOT NULL, created\_at TIMESTAMPTZ DEFAULT CURRENT\_TIMESTAMP.\<close>

record user_row =
  row_id :: int
  row_email :: string
  password_hash :: string
  created_at :: timestamp

text \<open>The two properties the handlers store on \<^verbatim>\<open>req.session\<close>; \<open>None\<close> is
  \<^verbatim>\<open>undefined\<close>.\<close>

record session =
  userId :: "int option"
  sess_email :: "string option"

record session_row =
  sess :: session
  expire :: timestamp

text \<open>\<open>up\<close> tells whether the pool answers: when it is false every \<^verbatim>\<open>pool.query\<close>
  rejects, and so does every operation of the session store, which uses the same pool.
  \<open>next_id\<close> is the value the sequence behind \<^verbatim>\<open>id SERIAL\<close> gives next. Two properties
  of the database server are not fixed by server.js and belong to the world: \<open>encodes\<close>,
  the strings that the database's encoding can hold, and \<open>index_fits\<close>, the strings
  short enough for an entry of the index behind \<^verbatim>\<open>email TEXT UNIQUE\<close>.\<close>

record world =
  users :: "user_row list"
  next_id :: int
  sessions :: "sid \<rightharpoonup> session_row"
  up :: bool
  encodes :: "string \<Rightarrow> bool"
  index_fits :: "string \<Rightarrow> bool"

text \<open>The ways a query is rejected, and the one way a call of bcrypt is.\<close>

datatype db_error =
    ConnectionError
  | InvalidByteSequence
  | SequenceLimit
  | IndexRowSize
  | UniqueViolation

datatype bcrypt_error = DataNotString

text \<open>A value of the parsed request body (\<^verbatim>\<open>express.json\<close>, \<^verbatim>\<open>express.urlencoded\<close>).
  Numbers are kept to the integers: the handlers only test a number for being zero.\<close>

datatype jsvalue =
    VNull
  | VBool bool
  | VNum int
  | VStr string
  | VArr "jsvalue list"
  | VObj "(string \<times> jsvalue) list"

text \<open>\<^verbatim>\<open>req.body\<close> after \<^verbatim>\<open>const { email, password } = req.body\<close>: a field is a value
  or missing (\<open>None\<close>, \<^verbatim>\<open>undefined\<close>).\<close>

record credentials =
  email :: "jsvalue option"
  password :: "jsvalue option"

text \<open>What \<^verbatim>\<open>res.status(n).json(v)\<close> sends. \<open>JDate\<close> is a Date value, which
  \<^verbatim>\<open>JSON.stringify\<close> writes as its ISO string.\<close>

datatype json =
    JBool bool
  | JNum int
  | JStr string
  | JDate timestamp
  | JObj "(string \<times> json) list"

record response =
  status :: nat
  payload :: json

text \<open>The packages bcrypt and pg are not part of the server: what they compute is a
  parameter. \<open>bcrypt_hash H data rounds salt\<close> is the digest of \<^verbatim>\<open>bcrypt.hash(data, rounds)\<close>
  for a string \<open>data\<close> when the package draws \<open>salt\<close>; \<open>bcrypt_compare H data digest\<close> is
  the answer of \<^verbatim>\<open>bcrypt.compare\<close> for a string \<open>data\<close>; \<open>prepareValue H v\<close> is the text
  that pg sends for a query parameter \<open>v\<close> that is not a string.\<close>

record packages =
  bcrypt_hash :: "string \<Rightarrow> nat \<Rightarrow> string \<Rightarrow> string"
  bcrypt_compare :: "string \<Rightarrow> string \<Rightarrow> bool"
  prepareValue :: "jsvalue \<Rightarrow> string"

text \<open>What the environment decides during one request: the clock, the salt bcrypt draws,
  the id the middleware generates for a new session, and the rows that concurrent signups
  commit between this request's SELECT and its INSERT (no route deletes or updates a
  user, so appended rows are all another request can do to the table).\<close>

record env =
  now :: timestamp
  salt :: string
  fresh_sid :: sid
  raced :: "user_row list"

section \<open>Responses\<close>

definition reply :: "nat \<Rightarrow> json \<Rightarrow> response" where
  "reply n v = \<lparr>status = n, payload = v\<rparr>"

definition error_body :: "string \<Rightarrow> json" where
  "error_body msg = JObj [(''error'', JStr msg)]"

definition success_body :: "string \<Rightarrow> string \<Rightarrow> json" where
  "success_body msg e =
     JObj [(''success'', JBool True), (''message'', JStr msg), (''email'', JStr e)]"

definition server_error :: response where
  "server_error = reply 500 (error_body ''Server error'')"

text \<open>JavaScript's \<^verbatim>\<open>!x\<close> on a value of the body or undefined, and on a number or
  undefined.\<close>

fun falsy :: "jsvalue option \<Rightarrow> bool" where
  "falsy None = True"
| "falsy (Some VNull) = True"
| "falsy (Some (VBool b)) = (\<not> b)"
| "falsy (Some (VNum n)) = (n = 0)"
| "falsy (Some (VStr s)) = (s = [])"
| "falsy (Some (VArr xs)) = False"
| "falsy (Some (VObj kvs)) = False"

fun falsy_num :: "int option \<Rightarrow> bool" where
  "falsy_num None = True"
| "falsy_num (Some n) = (n = 0)"

section \<open>The calls into bcrypt\<close>

text \<open>\<^verbatim>\<open>bcrypt.hash(password, 10)\<close> and \<^verbatim>\<open>bcrypt.compare(password, user.password_hash)\<close>
  on a value of the body: the package rejects data that is not a string, and the
  \<^verbatim>\<open>await\<close> throws.\<close>

definition hash_call :: "packages \<Rightarrow> jsvalue \<Rightarrow> nat \<Rightarrow> string \<Rightarrow> bcrypt_error + string" where
  "hash_call H v rounds sl =
     (case v of VStr p \<Rightarrow> Inr (bcrypt_hash H p rounds sl) | _ \<Rightarrow> Inl DataNotString)"

definition compare_call :: "packages \<Rightarrow> jsvalue \<Rightarrow> string \<Rightarrow> bcrypt_error + bool" where
  "compare_call H v digest =
     (case v of VStr p \<Rightarrow> Inr (bcrypt_compare H p digest) | _ \<Rightarrow> Inl DataNotString)"

section \<open>Queries on the users table\<close>

text \<open>The text pg sends for the parameter \<^verbatim>\<open>[email]\<close>: a string goes as it is.\<close>

definition param_text :: "packages \<Rightarrow> jsvalue \<Rightarrow> string" where
  "param_text H v = (case v of VStr s \<Rightarrow> s | _ \<Rightarrow> prepareValue H v)"

text \<open>A text parameter the database takes: PostgreSQL rejects a text with the character
  U+0000 in every encoding, and one its encoding cannot hold.\<close>

definition valid_text :: "world \<Rightarrow> string \<Rightarrow> bool" where
  "valid_text w t = (CHR 0x00 \<notin> set t \<and> encodes w t)"

text \<open>\<^verbatim>\<open>findUserByEmail\<close>: SELECT ... WHERE email = \$1, then \<^verbatim>\<open>res.rows[0]\<close>. The
  argument is the text of the parameter.\<close>

definition findUserByEmail :: "world \<Rightarrow> string \<Rightarrow> db_error + user_row option" where
  "findUserByEmail w e =
     (if \<not> up w then Inl ConnectionError
      else if \<not> valid_text w e then Inl InvalidByteSequence
      else Inr (find (\<lambda>u. row_email u = e) (users w)))"

text \<open>SELECT id, email, created\_at FROM users WHERE id = \$1, then \<^verbatim>\<open>r.rows[0]\<close>.\<close>

definition findUserById :: "world \<Rightarrow> int \<Rightarrow> db_error + user_row option" where
  "findUserById w i =
     (if up w then Inr (find (\<lambda>u. row_id u = i) (users w)) else Inl ConnectionError)"

text \<open>INSERT INTO users (email, password\_hash) VALUES (\$1, \$2) RETURNING id, email.
  Both parameters must be texts the database takes. The id is the next value of the
  sequence of \<^verbatim>\<open>id SERIAL\<close>, a 4-byte integer: past 2147483647 the sequence gives no
  value and the INSERT is rejected. A value once drawn is spent, also when the INSERT is
  rejected afterwards: by PRIMARY KEY when a row has the id, by the size of an index
  entry, or by UNIQUE when a row has the email. created\_at comes from the clock. The
  result is the row or the error, and the world the statement leaves.\<close>

definition insert_user ::
  "world \<Rightarrow> timestamp \<Rightarrow> string \<Rightarrow> string \<Rightarrow> (db_error + user_row) \<times> world" where
  "insert_user w t e h =
     (if \<not> up w then (Inl ConnectionError, w)
      else if \<not> valid_text w e \<or> \<not> valid_text w h then (Inl InvalidByteSequence, w)
      else if 2147483647 < next_id w then (Inl SequenceLimit, w)
      else
        (let r = \<lparr>row_id = next_id w, row_email = e, password_hash = h, created_at = t\<rparr>;
             w1 = w\<lparr>next_id := next_id w + 1\<rparr>
         in if find (\<lambda>u. row_id u = next_id w) (users w) \<noteq> None
            then (Inl UniqueViolation, w1)
            else if \<not> index_fits w e then (Inl IndexRowSize, w1)
            else if find (\<lambda>u. row_email u = e) (users w) \<noteq> None
            then (Inl UniqueViolation, w1)
            else (Inr r, w1\<lparr>users := users w @ [r]\<rparr>)))"

text \<open>The table as this request's INSERT finds it: the rows committed by concurrent
  signups since its SELECT are there, and the sequence has moved past them.\<close>

definition concurrent_signups :: "user_row list \<Rightarrow> world \<Rightarrow> world" where
  "concurrent_signups rs w =
     w\<lparr>users := users w @ rs, next_id := next_id w + int (length rs)\<rparr>"

section \<open>The route handlers\<close>

text \<open>Each handler returns the response, \<^verbatim>\<open>req.session\<close> as the handler leaves it, and the
  world. The \<^verbatim>\<open>catch\<close> block of signup and login is the \<open>Inl\<close> branch of each query and
  of each call of bcrypt.\<close>

definition signup ::
  "packages \<Rightarrow> env \<Rightarrow> credentials \<Rightarrow> session \<Rightarrow> world \<Rightarrow> response \<times> session \<times> world" where
  "signup H E b s w =
     (if falsy (email b) \<or> falsy (password b)
      then (reply 400 (error_body ''Email and password required''), s, w)
      else
        case findUserByEmail w (param_text H (the (email b))) of
          Inl err \<Rightarrow> (server_error, s, w)
        | Inr (Some existing) \<Rightarrow> (reply 409 (error_body ''User already exists''), s, w)
        | Inr None \<Rightarrow>
            (case hash_call H (the (password b)) 10 (salt E) of
               Inl err \<Rightarrow> (server_error, s, w)
             | Inr hash \<Rightarrow>
                 (let w1 = concurrent_signups (raced E) w
                  in (case insert_user w1 (now E) (param_text H (the (email b))) hash of
                        (Inl err, w2) \<Rightarrow> (server_error, s, w2)
                      | (Inr r, w2) \<Rightarrow>
                          (reply 200 (success_body ''Account created'' (row_email r)),
                           s\<lparr>userId := Some (row_id r), sess_email := Some (row_email r)\<rparr>,
                           w2)))))"

definition login ::
  "packages \<Rightarrow> credentials \<Rightarrow> session \<Rightarrow> world \<Rightarrow> response \<times> session \<times> world" where
  "login H b s w =
     (if falsy (email b) \<or> falsy (password b)
      then (reply 400 (error_body ''Email and password required''), s, w)
      else
        case findUserByEmail w (param_text H (the (email b))) of
          Inl err \<Rightarrow> (server_error, s, w)
        | Inr None \<Rightarrow> (reply 401 (error_body ''Invalid credentials''), s, w)
        | Inr (Some user) \<Rightarrow>
            (case compare_call H (the (password b)) (password_hash user) of
               Inl err \<Rightarrow> (server_error, s, w)
             | Inr ok \<Rightarrow>
                 if \<not> ok
                 then (reply 401 (error_body ''Invalid credentials''), s, w)
                 else
                   (reply 200 (success_body ''Logged in'' (row_email user)),
                    s\<lparr>userId := Some (row_id user), sess_email := Some (row_email user)\<rparr>,
                    w)))"

text \<open>The profile handler has no \<^verbatim>\<open>try\<close>: when its query rejects, the handler sends
  nothing, which is the result \<open>None\<close>.\<close>

definition user_body :: "user_row \<Rightarrow> json" where
  "user_body r =
     JObj [(''user'',
       JObj [(''id'', JNum (row_id r)), (''email'', JStr (row_email r)),
             (''created_at'', JDate (created_at r))])]"

definition profile :: "session \<Rightarrow> world \<Rightarrow> response option" where
  "profile s w =
     (if falsy_num (userId s) then Some (reply 401 (error_body ''Not authenticated''))
      else
        case findUserById w (the (userId s)) of
          Inl err \<Rightarrow> None
        | Inr None \<Rightarrow> Some (reply 404 (error_body ''User not found''))
        | Inr (Some r) \<Rightarrow> Some (reply 200 (user_body r)))"

section \<open>The session middleware\<close>

text \<open>
  server.js configures the session middleware (express-session over connect-pg-simple,
  \<^verbatim>\<open>resave: false\<close>, \<^verbatim>\<open>saveUninitialized: false\<close>, \<^verbatim>\<open>cookie.maxAge\<close> of one day) but the
  middleware's code is not part of the server. Its operations follow the contract of the
  session store in section 4.2 of the spec. The cookie's signature is left out: a cookie
  that does not verify is no cookie.
\<close>

text \<open>\<^verbatim>\<open>cookie: { maxAge: 24*60*60*1000 }\<close>, in milliseconds.\<close>

definition maxAge :: nat where
  "maxAge = 24 * 60 * 60 * 1000"

text \<open>The session object of a request that comes with no live session.\<close>

definition new_session :: session where
  "new_session = \<lparr>userId = None, sess_email = None\<rparr>"

text \<open>Modelled from the spec: the store's \<open>get\<close>, missing from the source (it is
  connect-pg-simple's). It returns the record if present and not expired; an expired
  record is treated as absent. It fails when the pool is down.\<close>

definition session_get :: "world \<Rightarrow> timestamp \<Rightarrow> sid \<Rightarrow> db_error + session option" where
  "session_get w t k =
     (if \<not> up w then Inl ConnectionError
      else case sessions w k of
             None \<Rightarrow> Inr None
           | Some r \<Rightarrow> if expire r < t then Inr None else Inr (Some (sess r)))"

text \<open>Modelled from the spec: the store's \<open>destroy\<close>, missing from the source. It
  removes the record; destroying a token that has no record is not an error. It fails
  when the pool is down.\<close>

definition session_destroy :: "world \<Rightarrow> sid \<Rightarrow> db_error + world" where
  "session_destroy w k =
     (if \<not> up w then Inl ConnectionError
      else Inr (w\<lparr>sessions := (sessions w)(k := None)\<rparr>))"

text \<open>Modelled from the spec: the store's \<open>create\<close>, missing from the source. It
  persists the record under the id with the absolute expiry \<open>now + ttl\<close>, the ttl being
  \<open>maxAge\<close>. The model does not refresh the expiry of a record afterwards.\<close>

definition session_save :: "world \<Rightarrow> timestamp \<Rightarrow> sid \<Rightarrow> session \<Rightarrow> world" where
  "session_save w t k s =
     w\<lparr>sessions := (sessions w)(k \<mapsto> \<lparr>sess = s, expire = t + maxAge\<rparr>)\<rparr>"

text \<open>Modelled from the spec: the middleware's loading of \<^verbatim>\<open>req.session\<close>, missing from
  the source. The request runs with the stored session, under the cookie's id, when
  \<open>get\<close> returns a record for the cookie; with a new empty session under a fresh id when
  there is no cookie or \<open>get\<close> returns none.\<close>

definition load_session :: "world \<Rightarrow> env \<Rightarrow> sid option \<Rightarrow> db_error + (sid \<times> session)" where
  "load_session w E c =
     (case c of
        None \<Rightarrow> Inr (fresh_sid E, new_session)
      | Some k \<Rightarrow>
          (case session_get w (now E) k of
             Inl err \<Rightarrow> Inl err
           | Inr None \<Rightarrow> Inr (fresh_sid E, new_session)
           | Inr (Some s) \<Rightarrow> Inr (k, s)))"

text \<open>The logout handler: \<^verbatim>\<open>req.session.destroy(cb)\<close>, with 500 when the callback gets an
  error and success otherwise.\<close>

definition logout :: "sid \<Rightarrow> world \<Rightarrow> response \<times> world" where
  "logout k w =
     (case session_destroy w k of
        Inl err \<Rightarrow> (reply 500 (error_body ''Could not log out''), w)
      | Inr w' \<Rightarrow> (reply 200 (JObj [(''success'', JBool True)]), w'))"

section \<open>One request through the middleware and its route\<close>

datatype route = Signup credentials | Login credentials | Profile | Logout

record request =
  cookie :: "sid option"
  route :: route

text \<open>Modelled from the spec: the middleware's end of request, missing from the source.
  With \<^verbatim>\<open>resave: false\<close> and \<^verbatim>\<open>saveUninitialized: false\<close> the session is written, and
  its id sent as the cookie, only when the handler changed it: a session is issued on a
  successful signup or login.\<close>

definition finish ::
  "env \<Rightarrow> sid \<Rightarrow> session \<Rightarrow> response \<times> session \<times> world \<Rightarrow> response option \<times> sid option \<times> world" where
  "finish E k s0 res =
     (case res of (r, s1, w1) \<Rightarrow>
        if s1 = s0 then (Some r, None, w1)
        else (Some r, Some k, session_save w1 (now E) k s1))"

text \<open>The result is the JSON response of the handler (\<open>None\<close> when the failure is left
  to Express), the cookie set, and the world.\<close>

definition serve ::
  "packages \<Rightarrow> env \<Rightarrow> request \<Rightarrow> world \<Rightarrow> response option \<times> sid option \<times> world" where
  "serve H E rq w =
     (case load_session w E (cookie rq) of
        Inl err \<Rightarrow> (None, None, w)
      | Inr (k, s) \<Rightarrow>
          (case route rq of
             Signup b \<Rightarrow> finish E k s (signup H E b s w)
           | Login b \<Rightarrow> finish E k s (login H b s w)
           | Profile \<Rightarrow> (profile s w, None, w)
           | Logout \<Rightarrow> (case logout k w of (r, w') \<Rightarrow> (Some r, None, w'))))"

definition world_after :: "response option \<times> sid option \<times> world \<Rightarrow> world" where
  "world_after res = snd (snd res)"

text \<open>A sequence of requests served one after the other, each with its own inputs from
  the environment.\<close>

fun run :: "packages \<Rightarrow> (env \<times> request) list \<Rightarrow> world \<Rightarrow> world" where
  "run H [] w = w"
| "run H ((E, rq) # rest) w = run H rest (world_after (serve H E rq w))"

section \<open>Sample inputs\<close>

text \<open>Concrete values at which the theorems below are instantiated. The stand-in hasher
  writes a two-character salt in front of the data.\<close>

definition demo_bcrypt :: packages where
  "demo_bcrypt =
     \<lparr>bcrypt_hash = (\<lambda>data rounds salt. salt @ data),
      bcrypt_compare = (\<lambda>data digest. drop 2 digest = data),
      prepareValue = (\<lambda>v. ''?'')\<rparr>"

definition alice :: user_row where
  "alice = \<lparr>row_id = 1, row_email = ''a@x.com'', password_hash = ''s1pw1'', created_at = 1000\<rparr>"

definition alice_session :: session where
  "alice_session = \<lparr>userId = Some 1, sess_email = Some ''a@x.com''\<rparr>"

definition empty_world :: world where
  "empty_world =
     \<lparr>users = [], next_id = 1, sessions = Map.empty, up = True,
      encodes = (\<lambda>t. True), index_fits = (\<lambda>t. length t \<le> 2000)\<rparr>"

definition demo_world :: world where
  "demo_world =
     \<lparr>users = [alice], next_id = 2,
      sessions = [''t1'' \<mapsto> \<lparr>sess = alice_session, expire = 5000\<rparr>],
      up = True,
      encodes = (\<lambda>t. True), index_fits = (\<lambda>t. length t \<le> 2000)\<rparr>"

definition demo_env :: env where
  "demo_env = \<lparr>now = 2000, salt = ''s1'', fresh_sid = ''t2'', raced = []\<rparr>"

definition late_env :: env where
  "late_env = \<lparr>now = 6000, salt = ''s2'', fresh_sid = ''t3'', raced = []\<rparr>"

definition race_env :: env where
  "race_env = \<lparr>now = 2000, salt = ''s1'', fresh_sid = ''t2'', raced = [alice]\<rparr>"

text \<open>A body whose two fields are strings.\<close>

definition creds :: "string \<Rightarrow> string \<Rightarrow> credentials" where
  "creds e p = \<lparr>email = Some (VStr e), password = Some (VStr p)\<rparr>"

text \<open>The worlds of the scenario of section 8 of the spec: after the signup of
  \<open>a@x.com\<close> at instant 2000, and after a later login at instant 6000.\<close>

definition after_signup :: world where
  "after_signup =
     \<lparr>users = [\<lparr>row_id = 1, row_email = ''a@x.com'', password_hash = ''s1pw1'',
                created_at = 2000\<rparr>],
      next_id = 2,
      sessions = [''t2'' \<mapsto> \<lparr>sess = alice_session, expire = 86402000\<rparr>],
      up = True,
      encodes = (\<lambda>t. True), index_fits = (\<lambda>t. length t \<le> 2000)\<rparr>"

definition after_login :: world where
  "after_login =
     after_signup\<lparr>sessions :=
       (sessions after_signup)(''t3'' \<mapsto> \<lparr>sess = alice_session, expire = 86406000\<rparr>)\<rparr>"

section \<open>Facts about the queries\<close>

lemma find_snoc_None:
  "find P xs = None \<Longrightarrow> find P (xs @ [r]) = (if P r then Some r else None)"
  by (induction xs) (auto split: if_splits)

lemma find_append_None:
  "find P xs = None \<Longrightarrow> find P (xs @ ys) = find P ys"
  by (induction xs) (auto split: if_splits)

lemma findUserByEmail_up:
  "findUserByEmail w e = Inr x \<Longrightarrow>
   up w \<and> valid_text w e \<and> find (\<lambda>u. row_email u = e) (users w) = x"
  by (auto simp: findUserByEmail_def split: if_splits)

lemma creds_fields:
  "email (creds e p) = Some (VStr e)" "password (creds e p) = Some (VStr p)"
  by (simp_all add: creds_def)

lemma param_text_string: "param_text H (VStr e) = e"
  by (simp add: param_text_def)

lemma insert_user_fresh:
  assumes "up w" and "valid_text w e" and "valid_text w h"
    and "next_id w \<le> 2147483647"
    and "find (\<lambda>u. row_id u = next_id w) (users w) = None"
    and "index_fits w e"
    and "find (\<lambda>u. row_email u = e) (users w) = None"
  shows "insert_user w t e h =
     (Inr \<lparr>row_id = next_id w, row_email = e, password_hash = h, created_at = t\<rparr>,
      w\<lparr>next_id := next_id w + 1,
        users := users w @ [\<lparr>row_id = next_id w, row_email = e, password_hash = h,
                              created_at = t\<rparr>]\<rparr>)"
  using assms by (simp add: insert_user_def Let_def)

section \<open>Signup followed by login\<close>

text \<open>
  Claim C1, as the code has it. Take a non-empty email string \<open>e\<close> and a non-empty
  password string \<open>p\<close>, with \<open>e\<close> not registered and not taken by a concurrent signup
  while this one runs. When the database takes \<open>e\<close> as a text (no U+0000, in its
  encoding) and as an index entry, and the sequence can give an id (its next value is
  at most 2147483647 and no row has it), signup answers 200 with the email \<open>e\<close>, and a
  login with the same credentials against the world that signup leaves, whatever session
  it comes with, answers 200 with the same email. The hasher is asked for two things:
  the digest it produced for \<open>p\<close> is a text the database takes and verifies against
  \<open>p\<close>.
\<close>

theorem signup_then_login:
  assumes "e \<noteq> []" and "p \<noteq> []"
    and "findUserByEmail w e = Inr None"
    and "find (\<lambda>u. row_email u = e) (raced E) = None"
    and "index_fits w e"
    and "next_id w + int (length (raced E)) \<le> 2147483647"
    and "find (\<lambda>u. row_id u = next_id w + int (length (raced E))) (users w @ raced E) = None"
    and "valid_text w (bcrypt_hash H p 10 (salt E))"
    and "bcrypt_compare H p (bcrypt_hash H p 10 (salt E))"
  shows "fst (signup H E (creds e p) s w) = reply 200 (success_body ''Account created'' e)
       \<and> fst (login H (creds e p) s2 (snd (snd (signup H E (creds e p) s w))))
           = reply 200 (success_body ''Logged in'' e)"
proof -
  let ?h = "bcrypt_hash H p 10 (salt E)"
  let ?w1 = "concurrent_signups (raced E) w"
  let ?r = "\<lparr>row_id = next_id ?w1, row_email = e, password_hash = ?h, created_at = now E\<rparr>"
  let ?w2 = "?w1\<lparr>next_id := next_id ?w1 + 1, users := users ?w1 @ [?r]\<rparr>"
  from assms(3) have upw: "up w" and vt: "valid_text w e"
    and none: "find (\<lambda>u. row_email u = e) (users w) = None"
    using findUserByEmail_up by blast+
  have up1: "up ?w1" and vt1: "valid_text ?w1 e" and vh1: "valid_text ?w1 ?h"
    and fit1: "index_fits ?w1 e"
    using upw vt assms(5,8) by (simp_all add: concurrent_signups_def valid_text_def)
  have none1: "find (\<lambda>u. row_email u = e) (users ?w1) = None"
    using none assms(4) by (simp add: concurrent_signups_def find_append_None)
  have seq1: "next_id ?w1 \<le> 2147483647"
    using assms(6) by (simp add: concurrent_signups_def)
  have free1: "find (\<lambda>u. row_id u = next_id ?w1) (users ?w1) = None"
    using assms(7) by (simp add: concurrent_signups_def)
  have ins: "insert_user ?w1 (now E) e ?h = (Inr ?r, ?w2)"
    using insert_user_fresh [OF up1 vt1 vh1 seq1 free1 fit1 none1] .
  have su: "signup H E (creds e p) s w =
      (reply 200 (success_body ''Account created'' e),
       s\<lparr>userId := Some (next_id ?w1), sess_email := Some e\<rparr>, ?w2)"
    using assms(1,2,3) ins
    by (simp add: signup_def creds_fields param_text_string hash_call_def Let_def)
  have found: "findUserByEmail ?w2 e = Inr (Some ?r)"
    using up1 vt1 none1 by (simp add: findUserByEmail_def find_snoc_None valid_text_def)
  have li: "fst (login H (creds e p) s2 ?w2) = reply 200 (success_body ''Logged in'' e)"
    using assms(1,2,9) found
    by (simp add: login_def creds_fields param_text_string compare_call_def)
  show ?thesis
    using su li by simp
qed

theorem signup_then_login_witness:
  "fst (signup demo_bcrypt demo_env (creds ''b@x.com'' ''pw2'') new_session demo_world)
     = reply 200 (success_body ''Account created'' ''b@x.com'')
   \<and> fst (login demo_bcrypt (creds ''b@x.com'' ''pw2'') alice_session
        (snd (snd (signup demo_bcrypt demo_env (creds ''b@x.com'' ''pw2'') new_session demo_world))))
     = reply 200 (success_body ''Logged in'' ''b@x.com'')"
  by (rule signup_then_login)
     (simp_all add: findUserByEmail_def valid_text_def demo_world_def demo_env_def
        demo_bcrypt_def alice_def)

text \<open>Claim C1 as the spec states it, for every non-empty email and password, fails at
  these inputs. No user is registered, email and password are non-empty strings, and
  signup answers 500: once because the email has the character U+0000, which the
  database takes in no text, once because the sequence of ids has passed 2147483647.\<close>

theorem signup_then_login_counterexample:
  "users empty_world = [] \<and> ''a'' @ [CHR 0x00] \<noteq> [] \<and> ''pw1'' \<noteq> []
   \<and> fst (signup demo_bcrypt demo_env (creds (''a'' @ [CHR 0x00]) ''pw1'') new_session
        empty_world)
       = reply 500 (error_body ''Server error'')
   \<and> fst (signup demo_bcrypt demo_env (creds ''a@x.com'' ''pw1'') new_session
        (empty_world\<lparr>next_id := 2147483648\<rparr>))
       = reply 500 (error_body ''Server error'')"
  by (simp add: signup_def findUserByEmail_def valid_text_def insert_user_def
        concurrent_signups_def hash_call_def param_text_def creds_def empty_world_def
        demo_env_def demo_bcrypt_def server_error_def Let_def)

section \<open>Login failures\<close>




section \<open>Signup conflicts\<close>

text \<open>
  Claim C3, as the code has it. When the email is absent at signup's SELECT and the
  INSERT is rejected by a uniqueness constraint (a concurrent signup committed the email
  in between), the rejection reaches the \<^verbatim>\<open>catch\<close> block like any other error: the response
  is 500 with the message 'Server error'. The request adds no row (the world it leaves
  is the one the concurrent signups made, with the one sequence value the rejected
  INSERT drew spent) and does not write the session.
\<close>

theorem signup_race_server_error:
  assumes "e \<noteq> []" and "p \<noteq> []"
    and "findUserByEmail w e = Inr None"
    and "fst (insert_user (concurrent_signups (raced E) w) (now E) e
                (bcrypt_hash H p 10 (salt E))) = Inl UniqueViolation"
  shows "signup H E (creds e p) s w =
           (reply 500 (error_body ''Server error''), s,
            (concurrent_signups (raced E) w)
              \<lparr>next_id := next_id (concurrent_signups (raced E) w) + 1\<rparr>)
       \<and> users (snd (snd (signup H E (creds e p) s w))) = users w @ raced E"
proof -
  let ?w1 = "concurrent_signups (raced E) w"
  let ?h = "bcrypt_hash H p 10 (salt E)"
  have "insert_user ?w1 (now E) e ?h = (Inl UniqueViolation, ?w1\<lparr>next_id := next_id ?w1 + 1\<rparr>)"
    using assms(4) by (auto simp: insert_user_def Let_def split: if_splits)
  then have "signup H E (creds e p) s w =
      (reply 500 (error_body ''Server error''), s, ?w1\<lparr>next_id := next_id ?w1 + 1\<rparr>)"
    using assms(1,2,3)
    by (simp add: signup_def creds_fields param_text_string hash_call_def Let_def
          server_error_def)
  then show ?thesis
    by (simp add: concurrent_signups_def)
qed

theorem signup_race_server_error_witness:
  "signup demo_bcrypt race_env (creds ''a@x.com'' ''pw9'') new_session empty_world =
     (reply 500 (error_body ''Server error''), new_session,
      (concurrent_signups (raced race_env) empty_world)
        \<lparr>next_id := next_id (concurrent_signups (raced race_env) empty_world) + 1\<rparr>)
   \<and> users (snd (snd (signup demo_bcrypt race_env (creds ''a@x.com'' ''pw9'') new_session
        empty_world))) = users empty_world @ raced race_env"
  by (rule signup_race_server_error)
     (simp_all add: findUserByEmail_def valid_text_def insert_user_def concurrent_signups_def
        empty_world_def race_env_def alice_def demo_bcrypt_def Let_def)

text \<open>Claim C3 as the spec states it (409, the response of the pre-check) fails at this
  input: the world has no user, and a concurrent signup commits \<open>a@x.com\<close> before the
  INSERT.\<close>

theorem signup_race_counterexample:
  "findUserByEmail empty_world ''a@x.com'' = Inr None
   \<and> fst (insert_user (concurrent_signups (raced race_env) empty_world) (now race_env)
        ''a@x.com'' (bcrypt_hash demo_bcrypt ''pw9'' 10 (salt race_env))) = Inl UniqueViolation
   \<and> status (fst (signup demo_bcrypt race_env (creds ''a@x.com'' ''pw9'') new_session empty_world))
        = 500
   \<and> fst (signup demo_bcrypt race_env (creds ''a@x.com'' ''pw9'') new_session empty_world)
        \<noteq> reply 409 (error_body ''User already exists'')"
  by (simp add: signup_def findUserByEmail_def valid_text_def insert_user_def
        concurrent_signups_def hash_call_def param_text_def empty_world_def race_env_def
        alice_def creds_def server_error_def reply_def demo_bcrypt_def error_body_def Let_def)

text \<open>
  Claim C4. When the email is registered, signup with that email and any supplied
  (non-empty) password, the one of the existing account included, whatever the hasher,
  answers 409 with the message 'User already exists', and leaves the world and the
  session as they were: no account is created.
\<close>

theorem signup_existing_email:
  assumes "e \<noteq> []" and "p \<noteq> []"
    and "findUserByEmail w e = Inr (Some u)"
  shows "signup H E (creds e p) s w = (reply 409 (error_body ''User already exists''), s, w)"
  using assms by (simp add: signup_def creds_def param_text_def)

theorem signup_existing_email_witness:
  "signup demo_bcrypt demo_env (creds ''a@x.com'' ''pw1'') new_session demo_world =
     (reply 409 (error_body ''User already exists''), new_session, demo_world)"
  by (rule signup_existing_email [where u = alice])
     (simp_all add: findUserByEmail_def valid_text_def demo_world_def alice_def)

section \<open>Validation\<close>

text \<open>
  Claim C8. When the email or the password is empty or missing, signup and login both
  answer 400 and return the session and the world unchanged. This holds for every world,
  also one whose pool is down (where any query or session-store operation would fail),
  and for every hasher: the response is decided before any of them is used.
\<close>

theorem missing_field_rejected:
  assumes "falsy (email b) \<or> falsy (password b)"
  shows "signup H E b s w = (reply 400 (error_body ''Email and password required''), s, w)
       \<and> login H b s w = (reply 400 (error_body ''Email and password required''), s, w)"
  using assms by (auto simp: signup_def login_def)

theorem missing_field_rejected_witness:
  "signup demo_bcrypt demo_env \<lparr>email = Some (VStr ''a@x.com''), password = None\<rparr>
       alice_session (demo_world\<lparr>up := False\<rparr>)
     = (reply 400 (error_body ''Email and password required''), alice_session,
        demo_world\<lparr>up := False\<rparr>)
   \<and> login demo_bcrypt \<lparr>email = Some (VStr ''a@x.com''), password = None\<rparr>
       alice_session (demo_world\<lparr>up := False\<rparr>)
     = (reply 400 (error_body ''Email and password required''), alice_session,
        demo_world\<lparr>up := False\<rparr>)"
  by (rule missing_field_rejected) simp

section \<open>Failed logins and the session\<close>

text \<open>
  Claim C10. Whenever login does not answer 200 (a missing field, an unknown email, a
  wrong password, a failed query, or data that bcrypt rejects), the session object it
  returns is the one it was given: no userId and no email is written, and the world is
  unchanged too.
\<close>

theorem failed_login_keeps_session:
  assumes "status (fst (login H b s w)) \<noteq> 200"
  shows "fst (snd (login H b s w)) = s \<and> snd (snd (login H b s w)) = w"
  using assms
  by (auto simp: login_def reply_def split: if_splits sum.splits option.splits)

theorem failed_login_keeps_session_witness:
  "status (fst (login demo_bcrypt (creds ''a@x.com'' ''wrong'') alice_session demo_world)) = 401
   \<and> fst (snd (login demo_bcrypt (creds ''a@x.com'' ''wrong'') alice_session demo_world))
       = alice_session
   \<and> snd (snd (login demo_bcrypt (creds ''a@x.com'' ''wrong'') alice_session demo_world))
       = demo_world"
proof -
  have st: "status (fst (login demo_bcrypt (creds ''a@x.com'' ''wrong'') alice_session demo_world))
      = 401"
    by (simp add: login_def creds_def findUserByEmail_def valid_text_def param_text_def
          compare_call_def demo_world_def alice_def demo_bcrypt_def reply_def)
  then have "status (fst (login demo_bcrypt (creds ''a@x.com'' ''wrong'') alice_session demo_world))
      \<noteq> 200"
    by simp
  from failed_login_keeps_session [OF this] st show ?thesis
    by simp
qed

section \<open>Profile\<close>



section \<open>Sessions: what a request does to the session table\<close>

lemma insert_user_world:
  "sessions (snd (insert_user w t e h)) = sessions w \<and> up (snd (insert_user w t e h)) = up w"
  by (simp add: insert_user_def Let_def)

lemma signup_world:
  "sessions (snd (snd (signup H E b s w))) = sessions w
   \<and> up (snd (snd (signup H E b s w))) = up w"
proof -
  let ?w1 = "concurrent_signups (raced E) w"
  have w1: "sessions ?w1 = sessions w \<and> up ?w1 = up w"
    by (simp add: concurrent_signups_def)
  have ins: "insert_user ?w1 t e h = (x, w2) \<Longrightarrow> sessions w2 = sessions w \<and> up w2 = up w"
    for t e h x w2
    using insert_user_world [of ?w1 t e h] w1 by simp
  show ?thesis
    by (auto simp: signup_def Let_def dest: ins split: sum.splits option.splits prod.splits)
qed

lemma login_world: "snd (snd (login H b s w)) = w"
  by (auto simp: login_def split: sum.splits option.splits)

lemma load_session_sid:
  "load_session w E c = Inr (k, s) \<Longrightarrow> sessions w t = None \<Longrightarrow> fresh_sid E \<noteq> t \<Longrightarrow> k \<noteq> t"
  by (auto simp: load_session_def session_get_def
        split: option.splits sum.splits if_splits)

lemma finish_world:
  "sessions (world_after (finish E k s0 res)) t =
     (if fst (snd res) \<noteq> s0 \<and> t = k
      then Some \<lparr>sess = fst (snd res), expire = now E + maxAge\<rparr>
      else sessions (snd (snd res)) t)"
  by (cases res) (auto simp: finish_def world_after_def session_save_def)

lemma finish_up: "up (world_after (finish E k s0 res)) = up (snd (snd res))"
  by (cases res) (auto simp: finish_def world_after_def session_save_def)

lemma serve_up: "up (world_after (serve H E rq w)) = up w"
proof (cases "load_session w E (cookie rq)")
  case (Inl err)
  then show ?thesis by (simp add: serve_def world_after_def)
next
  case (Inr ks)
  obtain k s where ks: "ks = (k, s)" by (cases ks)
  show ?thesis
  proof (cases "route rq")
    case (Signup b)
    then show ?thesis using Inr ks by (simp add: serve_def finish_up signup_world)
  next
    case (Login b)
    then show ?thesis using Inr ks by (simp add: serve_def finish_up login_world)
  next
    case Profile
    then show ?thesis using Inr ks by (simp add: serve_def world_after_def)
  next
    case Logout
    then show ?thesis using Inr ks
      by (auto simp: serve_def world_after_def logout_def session_destroy_def)
  qed
qed

lemma serve_keeps_absent:
  assumes "sessions w t = None" and "fresh_sid E \<noteq> t"
  shows "sessions (world_after (serve H E rq w)) t = None"
proof (cases "load_session w E (cookie rq)")
  case (Inl err)
  then show ?thesis using assms by (simp add: serve_def world_after_def)
next
  case (Inr ks)
  obtain k s where ks: "ks = (k, s)" by (cases ks)
  have kt: "k \<noteq> t"
    using load_session_sid [of w E "cookie rq" k s t] Inr ks assms by simp
  show ?thesis
  proof (cases "route rq")
    case (Signup b)
    then show ?thesis using Inr ks kt assms by (simp add: serve_def finish_world signup_world)
  next
    case (Login b)
    then show ?thesis using Inr ks kt assms by (simp add: serve_def finish_world login_world)
  next
    case Profile
    then show ?thesis using Inr ks assms by (simp add: serve_def world_after_def)
  next
    case Logout
    then show ?thesis using Inr ks assms
      by (auto simp: serve_def world_after_def logout_def session_destroy_def)
  qed
qed

lemma run_up: "up (run H rs w) = up w"
proof (induction rs arbitrary: w)
  case Nil
  show ?case by simp
next
  case (Cons x rs)
  obtain E rq where x: "x = (E, rq)" by (cases x)
  have "up (run H (x # rs) w) = up (world_after (serve H E rq w))"
    using x Cons.IH [of "world_after (serve H E rq w)"] by simp
  then show ?case
    by (simp only: serve_up)
qed

lemma run_keeps_absent:
  "sessions w t = None \<Longrightarrow> t \<notin> set (map (\<lambda>x. fresh_sid (fst x)) rs) \<Longrightarrow>
   sessions (run H rs w) t = None"
proof (induction rs arbitrary: w)
  case Nil
  then show ?case by simp
next
  case (Cons x rs)
  obtain E rq where x: "x = (E, rq)" by (cases x)
  from Cons.prems have "fresh_sid E \<noteq> t" and rest: "t \<notin> set (map (\<lambda>x. fresh_sid (fst x)) rs)"
    using x by auto
  with Cons.prems(1) have "sessions (world_after (serve H E rq w)) t = None"
    by (simp add: serve_keeps_absent)
  from Cons.IH [OF this rest] show ?case
    using x by simp
qed

lemma profile_absent_token:
  "up w \<Longrightarrow> sessions w t = None \<Longrightarrow>
   serve H E \<lparr>cookie = Some t, route = Profile\<rparr> w =
     (Some (reply 401 (error_body ''Not authenticated'')), None, w)"
  by (simp add: serve_def load_session_def session_get_def profile_def new_session_def)

lemma logout_absent_token:
  "up w \<Longrightarrow> sessions w t = None \<Longrightarrow>
   fst (serve H E \<lparr>cookie = Some t, route = Logout\<rparr> w) =
     Some (reply 200 (JObj [(''success'', JBool True)]))"
  by (simp add: serve_def load_session_def session_get_def logout_def session_destroy_def)

section \<open>Logout\<close>

text \<open>
  Claim C5. Let \<open>t\<close> be the token of a live session. Logout with \<open>t\<close> answers 200 with
  success. After it, and after any further requests \<open>rs\<close> served in between (none of
  which is handed \<open>t\<close> again as a fresh id, the pool staying up), a profile request
  presenting \<open>t\<close> answers 401 with the message 'Not authenticated', and a second logout
  presenting \<open>t\<close> answers 200 with success.
\<close>

theorem logout_destroys_token:
  assumes "session_get w (now E) t = Inr (Some s)"
    and "t \<notin> set (map (\<lambda>x. fresh_sid (fst x)) rs)"
  shows "fst (serve H E \<lparr>cookie = Some t, route = Logout\<rparr> w)
           = Some (reply 200 (JObj [(''success'', JBool True)]))
       \<and> fst (serve H E2 \<lparr>cookie = Some t, route = Profile\<rparr>
              (run H rs (world_after (serve H E \<lparr>cookie = Some t, route = Logout\<rparr> w))))
           = Some (reply 401 (error_body ''Not authenticated''))
       \<and> fst (serve H E3 \<lparr>cookie = Some t, route = Logout\<rparr>
              (run H rs (world_after (serve H E \<lparr>cookie = Some t, route = Logout\<rparr> w))))
           = Some (reply 200 (JObj [(''success'', JBool True)]))"
proof -
  let ?w1 = "world_after (serve H E \<lparr>cookie = Some t, route = Logout\<rparr> w)"
  from assms(1) have upw: "up w"
    by (auto simp: session_get_def split: if_splits)
  have first: "serve H E \<lparr>cookie = Some t, route = Logout\<rparr> w =
      (Some (reply 200 (JObj [(''success'', JBool True)])), None,
       w\<lparr>sessions := (sessions w)(t := None)\<rparr>)"
    using assms(1) upw
    by (simp add: serve_def load_session_def logout_def session_destroy_def)
  then have gone: "sessions ?w1 t = None" and up1: "up ?w1"
    using upw by (simp_all add: world_after_def)
  have gone2: "sessions (run H rs ?w1) t = None"
    using run_keeps_absent [OF gone assms(2)] .
  have up2: "up (run H rs ?w1)"
    using up1 by (simp add: run_up)
  show ?thesis
    using first profile_absent_token [OF up2 gone2, of H E2]
      logout_absent_token [OF up2 gone2, of H E3]
    by simp
qed

theorem logout_destroys_token_witness:
  "fst (serve demo_bcrypt demo_env \<lparr>cookie = Some ''t1'', route = Logout\<rparr> demo_world)
     = Some (reply 200 (JObj [(''success'', JBool True)]))
   \<and> fst (serve demo_bcrypt late_env \<lparr>cookie = Some ''t1'', route = Profile\<rparr>
        (run demo_bcrypt [(demo_env, \<lparr>cookie = None, route = Login (creds ''a@x.com'' ''pw1'')\<rparr>)]
          (world_after
            (serve demo_bcrypt demo_env \<lparr>cookie = Some ''t1'', route = Logout\<rparr> demo_world))))
     = Some (reply 401 (error_body ''Not authenticated''))
   \<and> fst (serve demo_bcrypt late_env \<lparr>cookie = Some ''t1'', route = Logout\<rparr>
        (run demo_bcrypt [(demo_env, \<lparr>cookie = None, route = Login (creds ''a@x.com'' ''pw1'')\<rparr>)]
          (world_after
            (serve demo_bcrypt demo_env \<lparr>cookie = Some ''t1'', route = Logout\<rparr> demo_world))))
     = Some (reply 200 (JObj [(''success'', JBool True)]))"
  by (rule logout_destroys_token [where s = alice_session])
     (simp_all add: session_get_def demo_world_def demo_env_def)

section \<open>Session expiry\<close>

text \<open>
  Claim C6. A profile request presenting a token whose record has its expiry before the
  current instant gets the same result as a profile request with no token and as one
  with a token that has no record: 401 with the message 'Not authenticated', no cookie,
  the world unchanged. And whenever a request is answered with a session cookie, the
  record stored under that id expires exactly 24 hours (86400000 ms) after the request.
\<close>

theorem expired_session_is_absent:
  "(up w \<and> sessions w t = Some r \<and> expire r < now E \<and> sessions w t' = None \<longrightarrow>
      serve H E \<lparr>cookie = Some t, route = Profile\<rparr> w
        = (Some (reply 401 (error_body ''Not authenticated'')), None, w)
    \<and> serve H E \<lparr>cookie = None, route = Profile\<rparr> w
        = (Some (reply 401 (error_body ''Not authenticated'')), None, w)
    \<and> serve H E \<lparr>cookie = Some t', route = Profile\<rparr> w
        = (Some (reply 401 (error_body ''Not authenticated'')), None, w))
   \<and> (fst (snd (serve H E rq w)) = Some k \<longrightarrow>
        map_option expire (sessions (world_after (serve H E rq w)) k)
          = Some (now E + 24 * 60 * 60 * 1000))"
proof (intro conjI impI)
  assume a: "up w \<and> sessions w t = Some r \<and> expire r < now E \<and> sessions w t' = None"
  then show "serve H E \<lparr>cookie = Some t, route = Profile\<rparr> w
        = (Some (reply 401 (error_body ''Not authenticated'')), None, w)"
    by (simp add: serve_def load_session_def session_get_def profile_def new_session_def)
  from a show "serve H E \<lparr>cookie = None, route = Profile\<rparr> w
        = (Some (reply 401 (error_body ''Not authenticated'')), None, w)"
    by (simp add: serve_def load_session_def profile_def new_session_def)
  from a show "serve H E \<lparr>cookie = Some t', route = Profile\<rparr> w
        = (Some (reply 401 (error_body ''Not authenticated'')), None, w)"
    by (simp add: profile_absent_token)
next
  assume c: "fst (snd (serve H E rq w)) = Some k"
  show "map_option expire (sessions (world_after (serve H E rq w)) k)
          = Some (now E + 24 * 60 * 60 * 1000)"
  proof (cases "load_session w E (cookie rq)")
    case (Inl err)
    then show ?thesis using c by (simp add: serve_def)
  next
    case (Inr ks)
    obtain k0 s where ks: "ks = (k0, s)" by (cases ks)
    have fin: "fst (snd (finish E k0 s res)) = Some k \<Longrightarrow>
        map_option expire (sessions (world_after (finish E k0 s res)) k)
          = Some (now E + 24 * 60 * 60 * 1000)" for res
      by (cases res)
         (auto simp: finish_def world_after_def session_save_def maxAge_def split: if_splits)
    show ?thesis
    proof (cases "route rq")
      case (Signup b)
      then show ?thesis using Inr ks c fin by (simp add: serve_def)
    next
      case (Login b)
      then show ?thesis using Inr ks c fin by (simp add: serve_def)
    next
      case Profile
      then show ?thesis using Inr ks c by (simp add: serve_def)
    next
      case Logout
      then show ?thesis using Inr ks c by (simp add: serve_def split: prod.splits)
    qed
  qed
qed

theorem expired_session_is_absent_witness:
  "serve demo_bcrypt late_env \<lparr>cookie = Some ''t1'', route = Profile\<rparr> demo_world
     = (Some (reply 401 (error_body ''Not authenticated'')), None, demo_world)
   \<and> serve demo_bcrypt late_env \<lparr>cookie = None, route = Profile\<rparr> demo_world
     = (Some (reply 401 (error_body ''Not authenticated'')), None, demo_world)
   \<and> serve demo_bcrypt late_env \<lparr>cookie = Some ''t9'', route = Profile\<rparr> demo_world
     = (Some (reply 401 (error_body ''Not authenticated'')), None, demo_world)
   \<and> fst (snd (serve demo_bcrypt late_env
        \<lparr>cookie = None, route = Login (creds ''a@x.com'' ''pw1'')\<rparr> demo_world)) = Some ''t3''
   \<and> map_option expire (sessions (world_after (serve demo_bcrypt late_env
        \<lparr>cookie = None, route = Login (creds ''a@x.com'' ''pw1'')\<rparr> demo_world)) ''t3'')
     = Some (6000 + 24 * 60 * 60 * 1000)"
proof -
  have h1: "up demo_world \<and>
      sessions demo_world ''t1'' = Some \<lparr>sess = alice_session, expire = 5000\<rparr> \<and>
      expire \<lparr>sess = alice_session, expire = 5000\<rparr> < now late_env \<and>
      sessions demo_world ''t9'' = None"
    by (simp add: demo_world_def late_env_def)
  have h2: "fst (snd (serve demo_bcrypt late_env
        \<lparr>cookie = None, route = Login (creds ''a@x.com'' ''pw1'')\<rparr> demo_world)) = Some ''t3''"
    by (simp add: serve_def load_session_def finish_def login_def creds_def
          findUserByEmail_def valid_text_def param_text_def compare_call_def
          demo_world_def late_env_def alice_def demo_bcrypt_def new_session_def)
  have n: "now late_env = 6000"
    by (simp add: late_env_def)
  from expired_session_is_absent
         [of demo_world "''t1''" "\<lparr>sess = alice_session, expire = 5000\<rparr>" late_env "''t9''"
             demo_bcrypt "\<lparr>cookie = None, route = Login (creds ''a@x.com'' ''pw1'')\<rparr>" "''t3''"]
       h1 h2 n
  show ?thesis
    by simp
qed

section \<open>The scenario of section 8 of the spec\<close>

text \<open>
  The model run on the spec's concrete scenario, request by request: signup (200, a
  session is issued), the same signup again (409), login with a wrong password (401),
  login with the right one (200, a second session is issued), profile with that session
  (200), logout (200, the session is gone), profile again (401).
\<close>

lemmas scenario_defs =
  serve_def load_session_def session_get_def finish_def session_save_def signup_def
  login_def profile_def logout_def session_destroy_def findUserByEmail_def findUserById_def
  insert_user_def concurrent_signups_def valid_text_def param_text_def hash_call_def
  compare_call_def demo_env_def late_env_def demo_bcrypt_def
  empty_world_def creds_def new_session_def user_body_def server_error_def
  after_signup_def after_login_def alice_session_def maxAge_def Let_def

lemma scenario_signup:
  "serve demo_bcrypt demo_env
     \<lparr>cookie = None, route = Signup (creds ''a@x.com'' ''pw1'')\<rparr> empty_world
   = (Some (reply 200 (success_body ''Account created'' ''a@x.com'')), Some ''t2'', after_signup)"
  by (simp add: scenario_defs)

lemma scenario_signup_again:
  "serve demo_bcrypt demo_env
     \<lparr>cookie = None, route = Signup (creds ''a@x.com'' ''pw1'')\<rparr> after_signup
   = (Some (reply 409 (error_body ''User already exists'')), None, after_signup)"
  by (simp add: scenario_defs)

lemma scenario_login_wrong:
  "serve demo_bcrypt demo_env
     \<lparr>cookie = None, route = Login (creds ''a@x.com'' ''wrong'')\<rparr> after_signup
   = (Some (reply 401 (error_body ''Invalid credentials'')), None, after_signup)"
  by (simp add: scenario_defs)

lemma scenario_login:
  "serve demo_bcrypt late_env
     \<lparr>cookie = None, route = Login (creds ''a@x.com'' ''pw1'')\<rparr> after_signup
   = (Some (reply 200 (success_body ''Logged in'' ''a@x.com'')), Some ''t3'', after_login)"
  by (simp add: scenario_defs)

lemma scenario_profile:
  "serve demo_bcrypt late_env \<lparr>cookie = Some ''t3'', route = Profile\<rparr> after_login
   = (Some (reply 200 (JObj [(''user'',
        JObj [(''id'', JNum 1), (''email'', JStr ''a@x.com''), (''created_at'', JDate 2000)])])),
      None, after_login)"
  by (simp add: scenario_defs)

lemma scenario_logout:
  "serve demo_bcrypt late_env \<lparr>cookie = Some ''t3'', route = Logout\<rparr> after_login
   = (Some (reply 200 (JObj [(''success'', JBool True)])), None, after_signup)"
  by (simp add: scenario_defs)

lemma scenario_profile_after_logout:
  "serve demo_bcrypt late_env \<lparr>cookie = Some ''t3'', route = Profile\<rparr> after_signup
   = (Some (reply 401 (error_body ''Not authenticated'')), None, after_signup)"
  by (simp add: scenario_defs)

end
